theory Spec2Isabelle
  imports Main
begin

section \<open>Values of the backend coordination core\<close>

text \<open>
  The embedding follows \<^verbatim>\<open>bottles/backend/state.py\<close> and
  \<^verbatim>\<open>bottles/backend/repos/repo.py\<close>. The enumerations of the source are
  datatypes with the members' names.
\<close>

datatype Locks = ComponentsInstall

datatype Signals =
    ManagerLocalBottlesLoaded
  | RepositoryFetched
  | NetworkStatusChanged
  | GNotification
  | GShowUri
  | TaskAdded
  | TaskRemoved
  | TaskUpdated

datatype Status = RUNNING | DONE | FAILED

text \<open>A UUID is an opaque identifier.\<close>

datatype uuid = UUID nat

text \<open>
  The Python values that reach the modelled code as a status argument or as the data of
  a result: \<^verbatim>\<open>None\<close>, a member of \<^verbatim>\<open>Status\<close>, a UUID, and the
  tuples, integers, booleans and strings a dynamically typed caller could pass.
\<close>

datatype pyval =
    PyNone
  | PyStatus Status
  | PyUUID uuid
  | PyInt int
  | PyBool bool
  | PyStr string
  | PyTuple "pyval list"

text \<open>
  Modelled from the spec: \<^verbatim>\<open>bottles.backend.models.result.Result\<close> is not among
  the source files. The spec describes a signal's payload as a success flag and an
  arbitrary data value; the source builds it as \<^verbatim>\<open>Result(True, self.task_id)\<close>.
\<close>

record Result =
  status :: bool
  data :: pyval

text \<open>
  A signal handler is a callable of the UI layer (protocol \<^verbatim>\<open>SignalHandler\<close>: it
  takes the optional result and returns \<^verbatim>\<open>None\<close>). The model knows a handler by
  its identity and records every call made to it. The completion callback of a
  repository is such a callable without arguments.
\<close>

datatype SignalHandler = Handler nat

text \<open>
  What the modelled code does to its collaborators, in the order it happens: the
  messages handed to the logger, the calls of signal handlers and of completion
  callbacks, and the requests handed to the HTTP transport.
\<close>

datatype event =
    LogDebug string
  | LogInfo string
  | LogError string
  | Call SignalHandler "Result option"
  | Callback SignalHandler
  | HttpGet string

datatype error =
    NotImplementedError
  | KeyError
  | ZeroDivisionError
  | RuntimeError
  | UnicodeDecodeError
  | OverflowError

text \<open>
  A call returns a result, raises, or never returns (a blocking wait on a gate that is
  not signaled, the acquisition of a lock that is held). The state reached is returned
  beside the outcome, since what a call has written before it raises stays written.
\<close>

datatype 'a outcome = Returns 'a | Raises error | Blocks

text \<open>
  \<^verbatim>\<open>Task\<close>: the dataclass of the source; \<open>task_id\<close> and \<open>subtitle\<close> are the
  attributes \<^verbatim>\<open>_task_id\<close> and \<^verbatim>\<open>_subtitle\<close> behind the properties.
\<close>

record Task =
  task_id :: "uuid option"
  title :: string
  subtitle :: string
  hidden :: bool
  cancellable :: bool

definition Task_defaults :: Task where
  "Task_defaults =
     \<lparr>task_id = None, title = ''Task'', subtitle = '''', hidden = False, cancellable = False\<rparr>"

text \<open>
  Task objects are shared by reference between the registry and whoever drives the
  operation, so they live in a store addressed by references.
\<close>

datatype ref = Ref nat

text \<open>
  The process-wide state: the class attributes \<^verbatim>\<open>LockManager._LOCKS\<close> (a lock is
  the flag "held"), \<^verbatim>\<open>TaskManager._TASKS\<close>, \<^verbatim>\<open>SignalManager._SIGNALS\<close>,
  \<^verbatim>\<open>RepoStatus.EVENTS\<close> (an event is its flag), the store of Task objects and the
  trace of events.
\<close>

record world =
  LOCKS :: "Locks \<rightharpoonup> bool"
  TASKS :: "uuid \<rightharpoonup> ref"
  SIGNALS :: "Signals \<rightharpoonup> SignalHandler list"
  EVENTS :: "string \<rightharpoonup> bool"
  objects :: "ref \<Rightarrow> Task"
  trace :: "event list"

text \<open>The state of a process that has just imported the modules.\<close>

definition init_world :: world where
  "init_world =
     \<lparr>LOCKS = Map.empty, TASKS = Map.empty, SIGNALS = Map.empty, EVENTS = Map.empty,
      objects = (\<lambda>_. Task_defaults), trace = []\<rparr>"

text \<open>\<^verbatim>\<open>dict.setdefault(k, d)\<close>: the dictionary afterwards.\<close>

definition setdefault :: "('k \<rightharpoonup> 'v) \<Rightarrow> 'k \<Rightarrow> 'v \<Rightarrow> ('k \<rightharpoonup> 'v)" where
  "setdefault m k d = (case m k of None \<Rightarrow> m(k \<mapsto> d) | Some _ \<Rightarrow> m)"

definition emit :: "event list \<Rightarrow> world \<Rightarrow> world" where
  "emit es s = s\<lparr>trace := trace s @ es\<rparr>"

section \<open>SignalManager\<close>

text \<open>\<^verbatim>\<open>str(signal)\<close> of a member of \<^verbatim>\<open>Signals\<close>, as the f-string prints it.\<close>

fun str_Signals :: "Signals \<Rightarrow> string" where
  "str_Signals ManagerLocalBottlesLoaded = ''Signals.ManagerLocalBottlesLoaded''"
| "str_Signals RepositoryFetched = ''Signals.RepositoryFetched''"
| "str_Signals NetworkStatusChanged = ''Signals.NetworkStatusChanged''"
| "str_Signals GNotification = ''Signals.GNotification''"
| "str_Signals GShowUri = ''Signals.GShowUri''"
| "str_Signals TaskAdded = ''Signals.TaskAdded''"
| "str_Signals TaskRemoved = ''Signals.TaskRemoved''"
| "str_Signals TaskUpdated = ''Signals.TaskUpdated''"

text \<open>
  \<^verbatim>\<open>connect_signal\<close>: \<^verbatim>\<open>setdefault(signal, [])\<close>, then append to the list
  found under the key (which is there after the \<^verbatim>\<open>setdefault\<close>).
\<close>

definition connect_signal :: "Signals \<Rightarrow> SignalHandler \<Rightarrow> world \<Rightarrow> world" where
  "connect_signal signal handler s =
     (let m = setdefault (SIGNALS s) signal []
      in case m signal of
           Some fns \<Rightarrow> s\<lparr>SIGNALS := m(signal \<mapsto> fns @ [handler])\<rparr>
         | None \<Rightarrow> s\<lparr>SIGNALS := m\<rparr>)"

text \<open>The loop \<^verbatim>\<open>for fn in cls._SIGNALS[signal]: fn(data)\<close>.\<close>

fun call_handlers :: "SignalHandler list \<Rightarrow> Result option \<Rightarrow> world \<Rightarrow> world" where
  "call_handlers [] d s = s"
| "call_handlers (fn # fns) d s = call_handlers fns d (emit [Call fn d] s)"

definition send_signal :: "Signals \<Rightarrow> Result option \<Rightarrow> world \<Rightarrow> world" where
  "send_signal signal d s =
     (case SIGNALS s signal of
        None \<Rightarrow> emit [LogDebug (''No handler registered for '' @ str_Signals signal)] s
      | Some fns \<Rightarrow> call_handlers fns d s)"

text \<open>
  The events one \<^verbatim>\<open>send_signal\<close> adds in a given handler table: the calls of the
  handlers of the kind in the order of their list, or the debug message.
\<close>

definition dispatch :: "(Signals \<rightharpoonup> SignalHandler list) \<Rightarrow> Signals \<Rightarrow> Result option \<Rightarrow> event list" where
  "dispatch tbl signal d =
     (case tbl signal of
        None \<Rightarrow> [LogDebug (''No handler registered for '' @ str_Signals signal)]
      | Some fns \<Rightarrow> map (\<lambda>fn. Call fn d) fns)"

text \<open>A sequence of registrations, as the calls \<^verbatim>\<open>connect_signal(kind, handler)\<close> in order.\<close>

fun connect_all :: "(Signals \<times> SignalHandler) list \<Rightarrow> world \<Rightarrow> world" where
  "connect_all [] s = s"
| "connect_all ((k, h) # regs) s = connect_all regs (connect_signal k h s)"

text \<open>The handlers a sequence of registrations registers for a kind, in registration order.\<close>

definition registered :: "(Signals \<times> SignalHandler) list \<Rightarrow> Signals \<Rightarrow> SignalHandler list" where
  "registered regs k = map snd (filter (\<lambda>r. fst r = k) regs)"

section \<open>External collaborators\<close>

text \<open>
  A parsed structured document, as the codec returns it.
\<close>

datatype doc = Null | Scalar string | Sequence "doc list" | Mapping "(string \<times> doc) list"

type_synonym bytes = "char list"

text \<open>
  The collaborators the modelled code calls and whose code is outside the core; each is
  a parameter of the model.
  \<^item> \<open>gettext\<close>: the translation function \<^verbatim>\<open>_\<close>.
  \<^item> \<open>float_percent r t\<close>: the value of \<^verbatim>\<open>int(r / t * 100)\<close> for \<open>t \<noteq> 0\<close>, which
    Python computes in binary floating point; the model does not fix its rounding. It is
    \<open>None\<close> when the computation raises \<^verbatim>\<open>OverflowError\<close> (a quotient too large for
    a float).
  \<^item> \<open>http_get\<close>: the transfer \<^verbatim>\<open>c.perform()\<close> for a URL, \<open>None\<close> when it raises
    \<^verbatim>\<open>pycurl.error\<close>, otherwise the bytes written to the buffer. The URL is one the
    transport's options accept: a failure of \<^verbatim>\<open>c.setopt\<close>, before any transfer, is
    outside the model.
  \<^item> \<open>yaml_load\<close>: \<^verbatim>\<open>yaml.load\<close>, \<open>None\<close> when it raises \<^verbatim>\<open>yaml.YAMLError\<close>;
    the codec raising any other exception is outside the model.
  \<^item> \<open>utf8_decode\<close>: \<^verbatim>\<open>bytes.decode("utf-8")\<close>, \<open>None\<close> when it raises
    \<^verbatim>\<open>UnicodeDecodeError\<close>.
\<close>

record env =
  gettext :: "string \<Rightarrow> string"
  float_percent :: "int \<Rightarrow> int \<Rightarrow> int option"
  http_get :: "string \<Rightarrow> bytes option"
  yaml_load :: "bytes \<Rightarrow> doc option"
  utf8_decode :: "bytes \<Rightarrow> string option"

section \<open>Task\<close>

definition update_task :: "ref \<Rightarrow> (Task \<Rightarrow> Task) \<Rightarrow> world \<Rightarrow> world" where
  "update_task self f s = s\<lparr>objects := (objects s)(self := f (objects s self))\<rparr>"

text \<open>The data of \<^verbatim>\<open>Result(True, self.task_id)\<close>: the identifier, or \<^verbatim>\<open>None\<close>.\<close>

definition py_task_id :: "uuid option \<Rightarrow> pyval" where
  "py_task_id i = (case i of None \<Rightarrow> PyNone | Some u \<Rightarrow> PyUUID u)"

text \<open>The setter of \<^verbatim>\<open>task_id\<close>: a second assignment raises.\<close>

definition set_task_id :: "ref \<Rightarrow> uuid \<Rightarrow> world \<Rightarrow> unit outcome \<times> world" where
  "set_task_id self v s =
     (if task_id (objects s self) \<noteq> None then (Raises NotImplementedError, s)
      else (Returns (), update_task self (\<lambda>t. t\<lparr>task_id := Some v\<rparr>) s))"

text \<open>The setter of \<^verbatim>\<open>subtitle\<close>: store, then send \<^verbatim>\<open>TaskUpdated\<close>.\<close>

definition set_subtitle :: "ref \<Rightarrow> string \<Rightarrow> world \<Rightarrow> world" where
  "set_subtitle self v s =
     (let s1 = update_task self (\<lambda>t. t\<lparr>subtitle := v\<rparr>) s
      in send_signal TaskUpdated
           (Some \<lparr>status = True, data = py_task_id (task_id (objects s1 self))\<rparr>) s1)"

text \<open>
  \<^verbatim>\<open>Task.__init__\<close> on a new object \<open>self\<close>: its attributes start at the class
  defaults; the four assignments follow in the order of the source, the second one
  through the setter of \<^verbatim>\<open>subtitle\<close>.
\<close>

definition Task_init :: "ref \<Rightarrow> string \<Rightarrow> string \<Rightarrow> bool \<Rightarrow> bool \<Rightarrow> world \<Rightarrow> world" where
  "Task_init self ttl sub hid canc s =
     (let s0 = update_task self (\<lambda>_. Task_defaults) s;
          s1 = update_task self (\<lambda>t. t\<lparr>title := ttl\<rparr>) s0;
          s2 = set_subtitle self sub s1;
          s3 = update_task self (\<lambda>t. t\<lparr>hidden := hid\<rparr>) s2
      in update_task self (\<lambda>t. t\<lparr>cancellable := canc\<rparr>) s3)"

text \<open>Successive assignments to the subtitle of one task.\<close>

fun set_subtitles :: "ref \<Rightarrow> string list \<Rightarrow> world \<Rightarrow> world" where
  "set_subtitles self [] s = s"
| "set_subtitles self (v # vs) s = set_subtitles self vs (set_subtitle self v s)"

section \<open>TaskManager\<close>

definition get_task :: "uuid \<Rightarrow> world \<Rightarrow> ref option" where
  "get_task tid s = TASKS s tid"

text \<open>
  The statements of \<^verbatim>\<open>add_task\<close> after its first; \<open>uniq\<close> is what
  \<^verbatim>\<open>uuid4()\<close> returned.
\<close>

definition add_task :: "uuid \<Rightarrow> ref \<Rightarrow> world \<Rightarrow> uuid outcome \<times> world" where
  "add_task uniq task s =
     (case set_task_id task uniq s of
        (Raises e, s1) \<Rightarrow> (Raises e, s1)
      | (Blocks, s1) \<Rightarrow> (Blocks, s1)
      | (Returns _, s1) \<Rightarrow>
          (let s2 = s1\<lparr>TASKS := (TASKS s1)(uniq \<mapsto> task)\<rparr>;
               s3 = send_signal TaskAdded
                      (Some \<lparr>status = True, data = py_task_id (task_id (objects s2 task))\<rparr>) s2
           in (Returns uniq, s3)))"

text \<open>
  \<^verbatim>\<open>uuid4()\<close> of the standard library, by its contract: no two calls return the same
  identifier. \<open>gen\<close> is the sequence of identifiers the calls of a process return, in
  order (injective, by the contract), and the process counts the calls made.
\<close>

definition uuid4 :: "(nat \<Rightarrow> uuid) \<Rightarrow> nat \<Rightarrow> uuid \<times> nat" where
  "uuid4 gen n = (gen n, Suc n)"

text \<open>
  \<^verbatim>\<open>add_task\<close> as a whole, on the state and the number of calls of
  \<^verbatim>\<open>uuid4\<close> made so far: \<^verbatim>\<open>uniq = uuid4()\<close>, then the statements that follow.
\<close>

definition add_task_uuid4 :: "(nat \<Rightarrow> uuid) \<Rightarrow> ref \<Rightarrow> world \<times> nat \<Rightarrow> uuid outcome \<times> world \<times> nat" where
  "add_task_uuid4 gen task p =
     (case p of
        (s, n) \<Rightarrow>
          (case uuid4 gen n of
             (uniq, n') \<Rightarrow>
               (case add_task uniq task s of
                  (r, s') \<Rightarrow> (r, s', n'))))"

text \<open>The argument of \<^verbatim>\<open>remove_task\<close>: \<^verbatim>\<open>Union[UUID, Task]\<close>.\<close>

datatype task_arg = ByTask ref | ById uuid

text \<open>
  \<^verbatim>\<open>remove_task\<close>: a Task is replaced by its identifier; \<^verbatim>\<open>pop\<close> raises
  \<^verbatim>\<open>KeyError\<close> for a key that is not in the registry (\<^verbatim>\<open>None\<close> never is).
\<close>

definition remove_task :: "task_arg \<Rightarrow> world \<Rightarrow> unit outcome \<times> world" where
  "remove_task task s =
     (let key = (case task of ByTask r \<Rightarrow> task_id (objects s r) | ById u \<Rightarrow> Some u)
      in case key of
           None \<Rightarrow> (Raises KeyError, s)
         | Some u \<Rightarrow>
             (case TASKS s u of
                None \<Rightarrow> (Raises KeyError, s)
              | Some _ \<Rightarrow>
                  (Returns (),
                   send_signal TaskRemoved (Some \<lparr>status = True, data = PyUUID u\<rparr>)
                     (s\<lparr>TASKS := (TASKS s)(u := None)\<rparr>))))"

section \<open>The progress handler\<close>

text \<open>
  A sequence pattern of value patterns (\<^verbatim>\<open>case Status.DONE, Status.FAILED:\<close>)
  matches a subject that is a sequence of that length whose elements equal the
  patterns. A member of an enumeration and \<^verbatim>\<open>None\<close> are not sequences.
\<close>

fun match_sequence :: "pyval list \<Rightarrow> pyval \<Rightarrow> bool" where
  "match_sequence pats (PyTuple vs) = (vs = pats)"
| "match_sequence pats _ = False"

text \<open>Decimal digits, for the f-string \<^verbatim>\<open>f"{percent}%"\<close>.\<close>

fun str_nat :: "nat \<Rightarrow> string" where
  "str_nat n =
     (if n < 10 then [char_of (48 + n)] else str_nat (n div 10) @ [char_of (48 + n mod 10)])"

declare str_nat.simps [simp del]

definition str_int :: "int \<Rightarrow> string" where
  "str_int i = (if i < 0 then CHR ''-'' # str_nat (nat (- i)) else str_nat (nat i))"

text \<open>The message \<^verbatim>\<open>"Calculating..."\<close>, its last character the ellipsis U+2026 in UTF-8.\<close>

definition calculating :: string where
  "calculating = ''Calculating'' @ [CHR 0xE2, CHR 0x80, CHR 0xA6]"

text \<open>
  \<^verbatim>\<open>stream_update\<close>: the \<^verbatim>\<open>match\<close> statement with its one sequence pattern,
  the test for both sizes zero, and the division, which raises for a zero divisor and
  for a quotient outside the range of a float.
\<close>

definition stream_update :: "env \<Rightarrow> ref \<Rightarrow> int \<Rightarrow> int \<Rightarrow> pyval \<Rightarrow> world \<Rightarrow> unit outcome \<times> world" where
  "stream_update e self received_size total_size st s =
     (if match_sequence [PyStatus DONE, PyStatus FAILED] st then remove_task (ByTask self) s
      else if total_size = 0 \<and> received_size = 0
        then (Returns (), set_subtitle self (gettext e calculating) s)
      else if total_size = 0 then (Raises ZeroDivisionError, s)
      else
        (case float_percent e received_size total_size of
           None \<Rightarrow> (Raises OverflowError, s)
         | Some percent \<Rightarrow> (Returns (), set_subtitle self (str_int percent @ ''%'') s)))"

section \<open>LockManager\<close>

definition get_lock :: "Locks \<Rightarrow> world \<Rightarrow> world" where
  "get_lock nm s = s\<lparr>LOCKS := setdefault (LOCKS s) nm False\<rparr>"

definition lock_held :: "world \<Rightarrow> Locks \<Rightarrow> bool" where
  "lock_held s nm = (LOCKS s nm = Some True)"

text \<open>
  The wrapper the decorator returns: \<^verbatim>\<open>lock.acquire()\<close> blocks while the lock is
  held; \<^verbatim>\<open>func\<close> runs; if it returns, \<^verbatim>\<open>lock.release()\<close> runs (it raises
  \<^verbatim>\<open>RuntimeError\<close> on a lock that is not held) and the result is returned. There is
  no handler around the call, so an exception of \<^verbatim>\<open>func\<close> leaves the wrapper at
  once.
\<close>

definition wrapper :: "Locks \<Rightarrow> (world \<Rightarrow> 'r outcome \<times> world) \<Rightarrow> world \<Rightarrow> 'r outcome \<times> world" where
  "wrapper nm func s =
     (if lock_held s nm then (Blocks, s)
      else
        (case func (s\<lparr>LOCKS := (LOCKS s)(nm \<mapsto> True)\<rparr>) of
           (Returns rv, s1) \<Rightarrow>
             (if lock_held s1 nm then (Returns rv, s1\<lparr>LOCKS := (LOCKS s1)(nm \<mapsto> False)\<rparr>)
              else (Raises RuntimeError, s1))
         | (Raises e, s1) \<Rightarrow> (Raises e, s1)
         | (Blocks, s1) \<Rightarrow> (Blocks, s1)))"

text \<open>
  \<^verbatim>\<open>LockManager.lock(name)\<close> applied to a function: the lock is looked up (and
  created) when the decorator is built; the decorated function is the wrapper.
\<close>

definition lock :: "Locks \<Rightarrow> (world \<Rightarrow> 'r outcome \<times> world) \<Rightarrow> world \<Rightarrow> (world \<Rightarrow> 'r outcome \<times> world) \<times> world" where
  "lock nm func s = (wrapper nm func, get_lock nm s)"

section \<open>RepoStatus\<close>

definition repo_start_operation :: "string \<Rightarrow> world \<Rightarrow> world" where
  "repo_start_operation nm s =
     emit [LogDebug (''Start operation '' @ nm)]
       (s\<lparr>EVENTS := (setdefault (EVENTS s) nm False)(nm \<mapsto> False)\<rparr>)"

definition repo_done_operation :: "string \<Rightarrow> world \<Rightarrow> world" where
  "repo_done_operation nm s =
     emit [LogDebug (''Done operation '' @ nm)]
       (s\<lparr>EVENTS := (setdefault (EVENTS s) nm False)(nm \<mapsto> True)\<rparr>)"

text \<open>
  \<^verbatim>\<open>repo_wait_operation\<close>: \<^verbatim>\<open>event.wait()\<close> returns when the flag is set and
  blocks while it is not.
\<close>

definition repo_wait_operation :: "string \<Rightarrow> world \<Rightarrow> unit outcome \<times> world" where
  "repo_wait_operation nm s =
     (let s1 = s\<lparr>EVENTS := setdefault (EVENTS s) nm False\<rparr>
      in if EVENTS s1 nm = Some True
         then (Returns (), emit [LogDebug (''Done wait operation '' @ nm)] s1)
         else (Blocks, s1))"

text \<open>
  Calls of the three operations by any contexts, in the order they take effect. A wait
  that blocks leaves the gate as it is.
\<close>

datatype repo_op = Start string | Done string | Wait string

fun run_op :: "repo_op \<Rightarrow> world \<Rightarrow> world" where
  "run_op (Start nm) s = repo_start_operation nm s"
| "run_op (Done nm) s = repo_done_operation nm s"
| "run_op (Wait nm) s = snd (repo_wait_operation nm s)"

fun run_ops :: "repo_op list \<Rightarrow> world \<Rightarrow> world" where
  "run_ops [] s = s"
| "run_ops (x # xs) s = run_ops xs (run_op x s)"

section \<open>Repo\<close>

text \<open>
  \<open>name\<close> is the class attribute \<^verbatim>\<open>name\<close> (empty on \<^verbatim>\<open>Repo\<close>, set by the
  subclasses); \<open>catalog\<close> is \<^verbatim>\<open>None\<close> until the fetch has resolved.
\<close>

record Repo =
  name :: string
  url :: string
  catalog :: "doc option"

text \<open>
  \<^verbatim>\<open>__get_catalog\<close>. The test \<^verbatim>\<open>index in ["", None] or offline\<close> comes before
  any use of the transport.
\<close>

definition get_catalog :: "env \<Rightarrow> Repo \<Rightarrow> string option \<Rightarrow> bool \<Rightarrow> world \<Rightarrow> doc outcome \<times> world" where
  "get_catalog e self index offline s =
     (let s1 = repo_start_operation (name self @ ''.fetching'') s
      in case index of
           None \<Rightarrow> (Returns (Mapping []), s1)
         | Some u \<Rightarrow>
             if u = [] \<or> offline then (Returns (Mapping []), s1)
             else
               (let s2 = emit [HttpGet u] s1
                in case http_get e u of
                     None \<Rightarrow>
                       (Returns (Mapping []),
                        emit [LogError (''Cannot fetch '' @ name self @ '' repository index.'')] s2)
                   | Some body \<Rightarrow>
                       (case yaml_load e body of
                          None \<Rightarrow>
                            (Returns (Mapping []),
                             emit [LogError (''Cannot fetch '' @ name self @ '' repository index.'')] s2)
                        | Some d \<Rightarrow>
                            (Returns d, emit [LogInfo (''Catalog '' @ name self @ '' loaded'')] s2))))"

text \<open>The closure \<^verbatim>\<open>set_catalog\<close> of the constructor, over \<open>self\<close> and \<open>callback\<close>.\<close>

definition set_catalog :: "SignalHandler option \<Rightarrow> doc option \<Rightarrow> error option \<Rightarrow> Repo \<Rightarrow> world \<Rightarrow> Repo \<times> world" where
  "set_catalog callback res err self s =
     (let self1 = self\<lparr>catalog := res\<rparr>;
          s1 = repo_done_operation (name self1 @ ''.fetching'') s
      in case callback of
           None \<Rightarrow> (self1, s1)
         | Some cb \<Rightarrow> (self1, emit [Callback cb] s1))"

text \<open>
  Modelled from the spec: \<^verbatim>\<open>bottles.frontend.utils.threading.RunAsync\<close> is not among
  the source files. The spec's contract for the asynchronous task runner: it accepts a
  unit of work and a completion callback, executes the work off the calling context, and
  invokes the callback with (result, error) on completion. The model gives the object the
  callback writes to and the state once the work and its callback have run; work that
  never completes never reaches the callback.
\<close>

definition RunAsync :: "(world \<Rightarrow> 'a outcome \<times> world) \<Rightarrow> ('a option \<Rightarrow> error option \<Rightarrow> 'o \<Rightarrow> world \<Rightarrow> 'o \<times> world) \<Rightarrow> 'o \<Rightarrow> world \<Rightarrow> 'o \<times> world" where
  "RunAsync task_func callback obj s =
     (case task_func s of
        (Returns r, s1) \<Rightarrow> callback (Some r) None obj s1
      | (Raises e, s1) \<Rightarrow> callback None (Some e) obj s1
      | (Blocks, s1) \<Rightarrow> (obj, s1))"

text \<open>\<^verbatim>\<open>Repo.__init__\<close>, with the class attribute \<open>nm\<close> of the class constructed.\<close>

definition Repo_init :: "env \<Rightarrow> string \<Rightarrow> string \<Rightarrow> string option \<Rightarrow> bool \<Rightarrow> SignalHandler option \<Rightarrow> world \<Rightarrow> Repo \<times> world" where
  "Repo_init e nm u index offline callback s =
     (let self = \<lparr>name = nm, url = u, catalog = None\<rparr>
      in RunAsync (get_catalog e self index offline) (set_catalog callback) self s)"

text \<open>The value \<^verbatim>\<open>get_manifest\<close> returns: decoded text in plain mode, else a document.\<close>

datatype manifest = Plain string | Parsed doc

definition get_manifest :: "env \<Rightarrow> Repo \<Rightarrow> string \<Rightarrow> bool \<Rightarrow> world \<Rightarrow> manifest outcome \<times> world" where
  "get_manifest e self u plain s =
     (let s1 = emit [HttpGet u] s
      in case http_get e u of
           None \<Rightarrow>
             (Returns (Parsed (Mapping [])),
              emit [LogError (''Cannot fetch '' @ name self @ '' manifest.'')] s1)
         | Some res \<Rightarrow>
             if plain then
               (case utf8_decode e res of
                  None \<Rightarrow> (Raises UnicodeDecodeError, s1)
                | Some txt \<Rightarrow> (Returns (Plain txt), s1))
             else
               (case yaml_load e res of
                  None \<Rightarrow>
                    (Returns (Parsed (Mapping [])),
                     emit [LogError (''Cannot fetch '' @ name self @ '' manifest.'')] s1)
                | Some d \<Rightarrow> (Returns (Parsed d), s1)))"

section \<open>Vocabulary of the properties\<close>

text \<open>The handlers a state holds for a kind: the list under the key, empty without the key.\<close>

definition handlers_of :: "world \<Rightarrow> Signals \<Rightarrow> SignalHandler list" where
  "handlers_of s k = (case SIGNALS s k of None \<Rightarrow> [] | Some fns \<Rightarrow> fns)"

text \<open>
  A state with one subscriber of \<^verbatim>\<open>TaskUpdated\<close> and one task, constructed and then
  registered under the identifier 7.
\<close>

definition demo_world :: world where
  "demo_world =
     snd (add_task (UUID 7) (Ref 0)
            (Task_init (Ref 0) ''Installing'' [] False False
               (connect_signal TaskUpdated (Handler 1) init_world)))"

text \<open>
  A state with one subscriber of \<^verbatim>\<open>TaskAdded\<close> and two tasks constructed, the first
  of them registered by the first call of \<^verbatim>\<open>add_task\<close> of the process.
\<close>

definition registered_world :: world where
  "registered_world =
     fst (snd (add_task_uuid4 UUID (Ref 0)
                 (connect_signal TaskAdded (Handler 2)
                    (Task_init (Ref 1) ''Downloading'' [] False False
                       (Task_init (Ref 0) ''Installing'' [] False False init_world)),
                  0)))"

text \<open>
  An environment whose transport raises for every URL and whose codec rejects every
  document (the other collaborators are arbitrary), and a repository object.
\<close>

definition unreachable_env :: env where
  "unreachable_env =
     \<lparr>gettext = (\<lambda>m. m), float_percent = (\<lambda>r t. Some ((r * 100) div t)),
      http_get = (\<lambda>_. None), yaml_load = (\<lambda>_. None), utf8_decode = (\<lambda>b. Some b)\<rparr>"

definition demo_repo :: Repo where
  "demo_repo = \<lparr>name = ''components'', url = ''http://example/'', catalog = None\<rparr>"

text \<open>A gate is signaled when it exists and its flag is set.\<close>

definition gate_signaled :: "world \<Rightarrow> string \<Rightarrow> bool" where
  "gate_signaled s nm = (EVENTS s nm = Some True)"

section \<open>Signal dispatch\<close>

lemma call_handlers_eq: "call_handlers fns d s = emit (map (\<lambda>fn. Call fn d) fns) s"
  by (induction fns arbitrary: s) (simp_all add: emit_def)

lemma send_signal_eq: "send_signal signal d s = emit (dispatch (SIGNALS s) signal d) s"
  by (simp add: send_signal_def dispatch_def call_handlers_eq split: option.split)

lemma SIGNALS_connect_signal:
  "SIGNALS (connect_signal k h s) = (SIGNALS s)(k \<mapsto> handlers_of s k @ [h])"
  by (simp add: connect_signal_def setdefault_def handlers_of_def split: option.split)

lemma SIGNALS_connect_all:
  "SIGNALS (connect_all regs s) k =
     (if SIGNALS s k = None \<and> registered regs k = [] then None
      else Some (handlers_of s k @ registered regs k))"
proof (induction regs arbitrary: s)
  case Nil
  then show ?case by (auto simp: registered_def handlers_of_def)
next
  case (Cons r regs)
  obtain k' h where r: "r = (k', h)" by (cases r)
  show ?case
    by (simp add: r Cons.IH SIGNALS_connect_signal registered_def handlers_of_def)
qed

text \<open>
  C9. After any sequence of \<^verbatim>\<open>connect_signal\<close> registrations, made in any state,
  \<^verbatim>\<open>send_signal\<close> for a kind calls the handlers held for the kind, those of the
  sequence in registration order, once per registration and each with the payload given;
  nothing else of the state changes. For a kind without a registration (none before the
  sequence, none in it) it calls no handler and raises nothing: its one effect is the
  debug message.
\<close>

theorem send_signal_registered:
  "send_signal k d (connect_all regs s) =
     emit (if SIGNALS s k = None \<and> registered regs k = []
           then [LogDebug (''No handler registered for '' @ str_Signals k)]
           else map (\<lambda>h. Call h d) (handlers_of s k @ registered regs k))
       (connect_all regs s)"
  by (simp add: send_signal_eq dispatch_def SIGNALS_connect_all)

section \<open>Subtitle mutations\<close>

lemma emit_sel [simp]:
  "trace (emit es s) = trace s @ es"
  "SIGNALS (emit es s) = SIGNALS s"
  "TASKS (emit es s) = TASKS s"
  "LOCKS (emit es s) = LOCKS s"
  "EVENTS (emit es s) = EVENTS s"
  "objects (emit es s) = objects s"
  by (simp_all add: emit_def)

lemma emit_emit: "emit es (emit ds s) = emit (ds @ es) s"
  by (simp add: emit_def)

lemma update_task_sel [simp]:
  "trace (update_task r f s) = trace s"
  "SIGNALS (update_task r f s) = SIGNALS s"
  "TASKS (update_task r f s) = TASKS s"
  "LOCKS (update_task r f s) = LOCKS s"
  "EVENTS (update_task r f s) = EVENTS s"
  "objects (update_task r f s) = (objects s)(r := f (objects s r))"
  by (simp_all add: update_task_def)

lemma set_subtitle_eq:
  "set_subtitle r v s =
     emit (dispatch (SIGNALS s) TaskUpdated
             (Some \<lparr>status = True, data = py_task_id (task_id (objects s r))\<rparr>))
       (update_task r (\<lambda>t. t\<lparr>subtitle := v\<rparr>) s)"
  by (simp add: set_subtitle_def send_signal_eq)

lemma set_subtitle_sel [simp]:
  "trace (set_subtitle r v s) =
     trace s @ dispatch (SIGNALS s) TaskUpdated
                 (Some \<lparr>status = True, data = py_task_id (task_id (objects s r))\<rparr>)"
  "SIGNALS (set_subtitle r v s) = SIGNALS s"
  "TASKS (set_subtitle r v s) = TASKS s"
  "task_id (objects (set_subtitle r v s) r') = task_id (objects s r')"
  "subtitle (objects (set_subtitle r v s) r) = v"
  by (simp_all add: set_subtitle_eq)

lemma set_subtitles_sel [simp]:
  "SIGNALS (set_subtitles r vs s) = SIGNALS s"
  "TASKS (set_subtitles r vs s) = TASKS s"
  "task_id (objects (set_subtitles r vs s) r') = task_id (objects s r')"
  by (induction vs arbitrary: s) simp_all

lemma trace_set_subtitles:
  "trace (set_subtitles r vs s) =
     trace s @ concat (replicate (length vs)
       (dispatch (SIGNALS s) TaskUpdated
          (Some \<lparr>status = True, data = py_task_id (task_id (objects s r))\<rparr>)))"
  by (induction vs arbitrary: s) simp_all

lemma concat_replicate_snoc: "concat (replicate n xs) @ xs = concat (replicate (Suc n) xs)"
  by (induction n) simp_all

lemma funpow_send_signal:
  "(send_signal k d ^^ n) s = emit (concat (replicate n (dispatch (SIGNALS s) k d))) s"
proof (induction n)
  case 0
  show ?case by (simp add: emit_def)
next
  case (Suc n)
  have "(send_signal k d ^^ Suc n) s = send_signal k d ((send_signal k d ^^ n) s)"
    by simp
  also have "\<dots> = send_signal k d (emit (concat (replicate n (dispatch (SIGNALS s) k d))) s)"
    by (simp only: Suc)
  also have "\<dots> = emit (concat (replicate n (dispatch (SIGNALS s) k d)) @ dispatch (SIGNALS s) k d) s"
    by (simp add: send_signal_eq emit_emit)
  also have "concat (replicate n (dispatch (SIGNALS s) k d)) @ dispatch (SIGNALS s) k d =
      concat (replicate (Suc n) (dispatch (SIGNALS s) k d))"
    by (rule concat_replicate_snoc)
  finally show ?case .
qed

lemma count_calls_dispatch:
  "length (filter (\<lambda>ev. ev = Call h d) (dispatch tbl k d)) =
     count_list (case tbl k of None \<Rightarrow> [] | Some fns \<Rightarrow> fns) h"
proof (cases "tbl k")
  case None
  then show ?thesis by (simp add: dispatch_def)
next
  case (Some fns)
  have "length (filter (\<lambda>ev. ev = Call h d) (map (\<lambda>fn. Call fn d) fns)) = count_list fns h"
    by (induction fns) auto
  with Some show ?thesis by (simp add: dispatch_def)
qed

lemma length_filter_concat_replicate:
  "length (filter P (concat (replicate n xs))) = n * length (filter P xs)"
  by (induction n) simp_all

text \<open>
  C8. For a task with an assigned identifier, \<open>N\<close> assignments to its subtitle (any
  strings) leave the trace that \<open>N\<close> calls of \<^verbatim>\<open>send_signal\<close> for
  \<^verbatim>\<open>TaskUpdated\<close> with the payload \<^verbatim>\<open>Result(True, task_id)\<close> leave: \<open>N\<close> times
  the events of one dispatch, so that every handler of \<^verbatim>\<open>TaskUpdated\<close> is called
  with that identifier exactly \<open>N\<close> times per registration.
\<close>

theorem subtitle_publishes_task_updated:
  assumes "task_id (objects s self) = Some u"
  shows "trace (set_subtitles self vs s) =
           trace ((send_signal TaskUpdated (Some \<lparr>status = True, data = PyUUID u\<rparr>) ^^ length vs) s)
       \<and> trace (set_subtitles self vs s) =
           trace s @ concat (replicate (length vs)
             (dispatch (SIGNALS s) TaskUpdated (Some \<lparr>status = True, data = PyUUID u\<rparr>)))
       \<and> length (filter (\<lambda>ev. ev = Call h (Some \<lparr>status = True, data = PyUUID u\<rparr>))
                   (drop (length (trace s)) (trace (set_subtitles self vs s)))) =
           length vs * count_list (handlers_of s TaskUpdated) h"
  using assms
  by (simp add: trace_set_subtitles funpow_send_signal py_task_id_def
        length_filter_concat_replicate count_calls_dispatch handlers_of_def)

lemma demo_world_id: "task_id (objects demo_world (Ref 0)) = Some (UUID 7)"
  by (simp add: demo_world_def add_task_def set_task_id_def Task_init_def Task_defaults_def
      send_signal_eq Let_def)

lemma demo_world_SIGNALS: "SIGNALS demo_world TaskUpdated = Some [Handler 1]"
  by (simp add: demo_world_def add_task_def set_task_id_def Task_init_def Task_defaults_def
      send_signal_eq Let_def SIGNALS_connect_signal handlers_of_def init_world_def)

theorem subtitle_publishes_task_updated_witness:
  "task_id (objects demo_world (Ref 0)) = Some (UUID 7)
   \<and> trace (set_subtitles (Ref 0) [''10%'', ''20%''] demo_world) =
       trace demo_world @
         [Call (Handler 1) (Some \<lparr>status = True, data = PyUUID (UUID 7)\<rparr>),
          Call (Handler 1) (Some \<lparr>status = True, data = PyUUID (UUID 7)\<rparr>)]
   \<and> length (filter (\<lambda>ev. ev = Call (Handler 1) (Some \<lparr>status = True, data = PyUUID (UUID 7)\<rparr>))
               (drop (length (trace demo_world))
                  (trace (set_subtitles (Ref 0) [''10%'', ''20%''] demo_world)))) = 2"
  using subtitle_publishes_task_updated [OF demo_world_id, of "[''10%'', ''20%'']" "Handler 1"]
  by (simp add: demo_world_id demo_world_SIGNALS dispatch_def handlers_of_def)

section \<open>Task construction\<close>

lemma Task_init_sel [simp]:
  "trace (Task_init r ttl sub hid canc s) =
     trace s @ dispatch (SIGNALS s) TaskUpdated (Some \<lparr>status = True, data = PyNone\<rparr>)"
  "SIGNALS (Task_init r ttl sub hid canc s) = SIGNALS s"
  "TASKS (Task_init r ttl sub hid canc s) = TASKS s"
  "task_id (objects (Task_init r ttl sub hid canc s) r) = None"
  by (simp_all add: Task_init_def Let_def Task_defaults_def py_task_id_def)

lemma add_task_eq:
  "add_task uniq r s =
     (if task_id (objects s r) = None
      then (Returns uniq,
            emit (dispatch (SIGNALS s) TaskAdded (Some \<lparr>status = True, data = PyUUID uniq\<rparr>))
              ((update_task r (\<lambda>t. t\<lparr>task_id := Some uniq\<rparr>) s)\<lparr>TASKS := (TASKS s)(uniq \<mapsto> r)\<rparr>))
      else (Raises NotImplementedError, s))"
  by (simp add: add_task_def set_task_id_def send_signal_eq py_task_id_def Let_def)

text \<open>
  C10. The constructor of a Task leaves the identifier unassigned and adds to the trace
  what one \<^verbatim>\<open>send_signal\<close> for \<^verbatim>\<open>TaskUpdated\<close> with the payload
  \<^verbatim>\<open>Result(True, None)\<close> adds. With \<open>N\<close> later assignments to the subtitle the trace
  holds \<open>N + 1\<close> dispatches of \<^verbatim>\<open>TaskUpdated\<close>; if the task is registered after
  \<open>N\<close> of them and its subtitle assigned \<open>M\<close> more times, it holds \<open>N + 1\<close> dispatches
  with \<^verbatim>\<open>None\<close>, the dispatch of \<^verbatim>\<open>TaskAdded\<close>, and \<open>M\<close> dispatches with the
  identifier.
\<close>

theorem Task_init_publishes_once:
  "task_id (objects (Task_init self ttl sub hid canc s) self) = None
   \<and> trace (Task_init self ttl sub hid canc s) =
       trace (send_signal TaskUpdated (Some \<lparr>status = True, data = PyNone\<rparr>) s)
   \<and> trace (set_subtitles self vs (Task_init self ttl sub hid canc s)) =
       trace s @ concat (replicate (Suc (length vs))
         (dispatch (SIGNALS s) TaskUpdated (Some \<lparr>status = True, data = PyNone\<rparr>)))
   \<and> trace (set_subtitles self ws
              (snd (add_task uniq self (set_subtitles self vs (Task_init self ttl sub hid canc s))))) =
       trace s
       @ concat (replicate (Suc (length vs))
           (dispatch (SIGNALS s) TaskUpdated (Some \<lparr>status = True, data = PyNone\<rparr>)))
       @ dispatch (SIGNALS s) TaskAdded (Some \<lparr>status = True, data = PyUUID uniq\<rparr>)
       @ concat (replicate (length ws)
           (dispatch (SIGNALS s) TaskUpdated (Some \<lparr>status = True, data = PyUUID uniq\<rparr>)))"
  by (simp add: trace_set_subtitles add_task_eq py_task_id_def send_signal_eq)

section \<open>Registration of a task\<close>

lemma fresh_gen:
  assumes "inj (gen :: nat \<Rightarrow> uuid)" and "dom (TASKS s) \<subseteq> gen ` {..<n}"
  shows "gen n \<notin> dom (TASKS s)"
proof
  assume "gen n \<in> dom (TASKS s)"
  with assms(2) obtain k where k: "k < n" "gen n = gen k" by auto
  with assms(1) have "n = k" by (auto dest: injD)
  with k show False by simp
qed

lemma restrict_map_self: "m |` dom m = m"
  by (rule ext) (auto simp: restrict_map_def domIff)

lemma restrict_map_upd_fresh: "k \<notin> dom m \<Longrightarrow> (m(k \<mapsto> v)) |` dom m = m"
  by (rule ext) (auto simp: restrict_map_def domIff)

text \<open>
  The hypothesis on the registry below holds in a process that has just started, and
  \<^verbatim>\<open>remove_task\<close> keeps it, as \<^verbatim>\<open>add_task\<close> does (C7).
\<close>

lemma init_world_issued: "dom (TASKS init_world) \<subseteq> gen ` {..<0}"
  by (simp add: init_world_def)

lemma remove_task_issued:
  "dom (TASKS s) \<subseteq> gen ` {..<n} \<Longrightarrow> dom (TASKS (snd (remove_task x s))) \<subseteq> gen ` {..<n}"
  by (auto simp: remove_task_def Let_def send_signal_eq split: option.splits task_arg.splits)

text \<open>
  C7. In a process whose \<^verbatim>\<open>uuid4\<close> returns no identifier twice and whose registry holds
  only identifiers of earlier calls, \<^verbatim>\<open>add_task\<close> on a task without an identifier
  returns the identifier of its call of \<^verbatim>\<open>uuid4\<close>; that identifier is fresh (no key
  of the registry before the call); the task carries it; the registry maps it to the task
  and keeps every earlier entry; the trace grows by exactly the events of one dispatch of
  \<^verbatim>\<open>TaskAdded\<close> with \<^verbatim>\<open>Result(True, identifier)\<close>, so that every handler of
  \<^verbatim>\<open>TaskAdded\<close> is called with it once per registration; and the registry again holds
  only identifiers of earlier calls. On a task whose identifier is assigned,
  \<^verbatim>\<open>add_task\<close> raises \<^verbatim>\<open>NotImplementedError\<close> and the state is the one before
  the call (one call of \<^verbatim>\<open>uuid4\<close> was made): the registry is unchanged and nothing was
  sent.
\<close>

theorem add_task_registers:
  assumes "inj gen" and "dom (TASKS s) \<subseteq> gen ` {..<n}"
  shows "(if task_id (objects s task) = None
          then (case add_task_uuid4 gen task (s, n) of
                  (r, s', n') \<Rightarrow>
                    r = Returns (gen n)
                  \<and> gen n \<notin> dom (TASKS s)
                  \<and> task_id (objects s' task) = Some (gen n)
                  \<and> TASKS s' = (TASKS s)(gen n \<mapsto> task)
                  \<and> TASKS s' |` dom (TASKS s) = TASKS s
                  \<and> get_task (gen n) s' = Some task
                  \<and> SIGNALS s' = SIGNALS s
                  \<and> trace s' =
                      trace s @ dispatch (SIGNALS s) TaskAdded
                                  (Some \<lparr>status = True, data = PyUUID (gen n)\<rparr>)
                  \<and> length (filter (\<lambda>ev. ev = Call h (Some \<lparr>status = True, data = PyUUID (gen n)\<rparr>))
                              (drop (length (trace s)) (trace s'))) =
                      count_list (handlers_of s TaskAdded) h
                  \<and> dom (TASKS s') \<subseteq> gen ` {..<n'})
          else add_task_uuid4 gen task (s, n) = (Raises NotImplementedError, s, Suc n))"
proof -
  have f: "gen n \<notin> dom (TASKS s)"
    using assms by (rule fresh_gen)
  have d: "insert (gen n) (dom (TASKS s)) \<subseteq> gen ` {..<Suc n}"
    using assms(2) by (auto simp: lessThan_Suc)
  show ?thesis
    using f d
    by (simp add: add_task_uuid4_def uuid4_def add_task_eq get_task_def
        restrict_map_upd_fresh restrict_map_self count_calls_dispatch handlers_of_def)
qed

lemma registered_world_facts:
  "task_id (objects registered_world (Ref 0)) = Some (UUID 0)"
  "task_id (objects registered_world (Ref 1)) = None"
  "TASKS registered_world = [UUID 0 \<mapsto> Ref 0]"
  "SIGNALS registered_world = [TaskAdded \<mapsto> [Handler 2]]"
  by (simp_all add: registered_world_def add_task_uuid4_def uuid4_def add_task_eq
      connect_signal_def setdefault_def init_world_def Task_init_def Task_defaults_def
      set_subtitle_eq Let_def)

theorem add_task_registers_witness:
  "inj UUID \<and> dom (TASKS registered_world) \<subseteq> UUID ` {..<1}
   \<and> fst (add_task_uuid4 UUID (Ref 1) (registered_world, 1)) = Returns (UUID 1)
   \<and> TASKS (fst (snd (add_task_uuid4 UUID (Ref 1) (registered_world, 1)))) =
       [UUID 0 \<mapsto> Ref 0, UUID 1 \<mapsto> Ref 1]
   \<and> trace (fst (snd (add_task_uuid4 UUID (Ref 1) (registered_world, 1)))) =
       trace registered_world @ [Call (Handler 2) (Some \<lparr>status = True, data = PyUUID (UUID 1)\<rparr>)]
   \<and> add_task_uuid4 UUID (Ref 0) (registered_world, 1) =
       (Raises NotImplementedError, registered_world, 2)"
proof -
  have i: "inj UUID"
    by (simp add: inj_def)
  have h: "dom (TASKS registered_world) \<subseteq> UUID ` {..<1}"
    by (simp add: registered_world_facts)
  show ?thesis
    using i h add_task_registers [OF i h, of "Ref 1" "Handler 2"]
      add_task_registers [OF i h, of "Ref 0" "Handler 2"]
    by (simp add: registered_world_facts dispatch_def split: prod.splits del: One_nat_def)
qed

section \<open>The progress handler on a status\<close>

lemma stream_update_status:
  "stream_update e r rs ts (PyStatus st) s =
     (if ts = 0 \<and> rs = 0 then (Returns (), set_subtitle r (gettext e calculating) s)
      else if ts = 0 then (Raises ZeroDivisionError, s)
      else
        (case float_percent e rs ts of
           None \<Rightarrow> (Raises OverflowError, s)
         | Some percent \<Rightarrow> (Returns (), set_subtitle r (str_int percent @ ''%'') s)))"
  by (simp add: stream_update_def)

lemma stream_update_nonzero_total:
  "total_size \<noteq> 0 \<Longrightarrow> \<not> match_sequence [PyStatus DONE, PyStatus FAILED] st \<Longrightarrow>
   float_percent e received_size total_size = Some percent \<Longrightarrow>
   stream_update e self received_size total_size st s =
     (Returns (), set_subtitle self (str_int percent @ ''%'') s)"
  by (simp add: stream_update_def)

lemma stream_update_tuple:
  "stream_update e self received_size total_size (PyTuple [PyStatus DONE, PyStatus FAILED]) s =
     remove_task (ByTask self) s"
  by (simp add: stream_update_def)

lemma demo_world_TASKS: "TASKS demo_world = [UUID 7 \<mapsto> Ref 0]"
  by (simp add: demo_world_def add_task_eq init_world_def SIGNALS_connect_signal
      connect_signal_def setdefault_def)

text \<open>
  C1. The claim does not hold of the code. For every member of \<^verbatim>\<open>Status\<close> as the
  status, \<^verbatim>\<open>DONE\<close> and \<^verbatim>\<open>FAILED\<close> included, and for all sizes,
  \<^verbatim>\<open>stream_update\<close> leaves the registry as it was: the sequence pattern matches no
  member of the enumeration. With both sizes zero and the status \<^verbatim>\<open>DONE\<close> or
  \<^verbatim>\<open>FAILED\<close> the call is the assignment of the "Calculating" message to the
  subtitle, which is then the task's subtitle. The task registered under the identifier 7
  is still registered after such a call.
\<close>

theorem stream_update_terminal_keeps_task:
  "TASKS (snd (stream_update e self received_size total_size (PyStatus st) s)) = TASKS s
   \<and> stream_update e self 0 0 (PyStatus DONE) s =
       (Returns (), set_subtitle self (gettext e calculating) s)
   \<and> stream_update e self 0 0 (PyStatus FAILED) s =
       (Returns (), set_subtitle self (gettext e calculating) s)
   \<and> subtitle (objects (set_subtitle self (gettext e calculating) s) self) = gettext e calculating
   \<and> get_task (UUID 7) demo_world = Some (Ref 0)
   \<and> get_task (UUID 7) (snd (stream_update e (Ref 0) 0 0 (PyStatus DONE) demo_world)) =
       Some (Ref 0)"
  by (simp add: stream_update_status get_task_def demo_world_TASKS split: option.split)

text \<open>
  C4. The claim does not hold of the code where the total is zero and the received size
  is not. Without a status and with a total of zero, \<^verbatim>\<open>stream_update\<close> assigns the
  "Calculating" message when the received size is zero too, and otherwise raises
  \<^verbatim>\<open>ZeroDivisionError\<close> with the state as before the call: the division is not
  guarded and the subtitle is not set.
\<close>

theorem stream_update_zero_total:
  "stream_update e self received_size 0 PyNone s =
     (if received_size = 0 then (Returns (), set_subtitle self (gettext e calculating) s)
      else (Raises ZeroDivisionError, s))"
  by (simp add: stream_update_def)

section \<open>The lock wrapper\<close>

lemma wrapper_returns_releases:
  "fst (wrapper nm func s) = Returns rv \<Longrightarrow> LOCKS (snd (wrapper nm func s)) nm = Some False"
  by (auto simp: wrapper_def split: if_splits prod.splits outcome.splits)

text \<open>
  C2. The claim does not hold of the code on the exceptional exit. In a fresh process, a
  function that raises, decorated with \<^verbatim>\<open>LockManager.lock(nm)\<close> and called once,
  raises its exception through the wrapper and leaves the lock held; the next call of any
  function wrapped with the same lock blocks in its acquisition.
\<close>

theorem wrapper_raise_keeps_lock:
  "(case lock nm (\<lambda>s. (Raises err, s)) init_world of
      (guarded, s0) \<Rightarrow>
        guarded s0 = (Raises err, init_world\<lparr>LOCKS := [nm \<mapsto> True]\<rparr>)
        \<and> lock_held (snd (guarded s0)) nm
        \<and> fst (wrapper nm func (snd (guarded s0))) = Blocks)"
  by (simp add: lock_def wrapper_def get_lock_def lock_held_def setdefault_def init_world_def)

section \<open>Gates\<close>

lemma setdefault_same [simp]: "(setdefault m k d)(k \<mapsto> v) = m(k \<mapsto> v)"
  by (simp add: setdefault_def split: option.split)

lemma setdefault_apply: "setdefault m k d k' = (if k' = k \<and> m k = None then Some d else m k')"
  by (simp add: setdefault_def split: option.split)

lemma EVENTS_start [simp]: "EVENTS (repo_start_operation nm s) = (EVENTS s)(nm \<mapsto> False)"
  by (simp add: repo_start_operation_def)

lemma EVENTS_done [simp]: "EVENTS (repo_done_operation nm s) = (EVENTS s)(nm \<mapsto> True)"
  by (simp add: repo_done_operation_def)

lemma wait_eq:
  "repo_wait_operation nm s =
     (if gate_signaled s nm then (Returns (), emit [LogDebug (''Done wait operation '' @ nm)] s)
      else (Blocks, s\<lparr>EVENTS := setdefault (EVENTS s) nm False\<rparr>))"
  by (auto simp: repo_wait_operation_def gate_signaled_def Let_def setdefault_def split: option.split)

lemma run_op_keeps_signaled:
  "gate_signaled s nm \<Longrightarrow> x \<noteq> Start nm \<Longrightarrow> gate_signaled (run_op x s) nm"
  by (cases x) (auto simp: gate_signaled_def wait_eq setdefault_apply)

lemma run_ops_keeps_signaled:
  "gate_signaled s nm \<Longrightarrow> Start nm \<notin> set ops \<Longrightarrow> gate_signaled (run_ops ops s) nm"
  by (induction ops arbitrary: s) (auto simp: run_op_keeps_signaled)

text \<open>
  C5. In any state (the gate of \<open>nm\<close> never started, or not there at all),
  \<^verbatim>\<open>repo_done_operation(nm)\<close> leaves the gate signaled, and it stays signaled through
  any calls of the three operations by any contexts that hold no
  \<^verbatim>\<open>repo_start_operation(nm)\<close>: a \<^verbatim>\<open>repo_wait_operation(nm)\<close> after them
  returns. The same holds after start, then done. The next
  \<^verbatim>\<open>repo_start_operation(nm)\<close> clears the gate: a wait after it blocks.
\<close>

theorem done_signals_until_start:
  assumes "Start nm \<notin> set ops"
  shows "gate_signaled (run_ops ops (repo_done_operation nm s)) nm
       \<and> fst (repo_wait_operation nm (run_ops ops (repo_done_operation nm s))) = Returns ()
       \<and> fst (repo_wait_operation nm
                (run_ops ops (repo_done_operation nm (repo_start_operation nm s)))) = Returns ()
       \<and> fst (repo_wait_operation nm
                (repo_start_operation nm (run_ops ops (repo_done_operation nm s)))) = Blocks"
proof -
  have d: "gate_signaled (repo_done_operation nm t) nm" for t
    by (simp add: gate_signaled_def)
  have "gate_signaled (run_ops ops (repo_done_operation nm t)) nm" for t
    using d assms by (rule run_ops_keeps_signaled)
  moreover have "\<not> gate_signaled (repo_start_operation nm t) nm" for t
    by (simp add: gate_signaled_def)
  ultimately show ?thesis
    by (simp add: wait_eq)
qed

theorem done_signals_until_start_witness:
  "Start ''repoA.fetching'' \<notin>
     set [Wait ''repoA.fetching'', Start ''repoB.fetching'', Done ''repoA.fetching'']
   \<and> fst (repo_wait_operation ''repoA.fetching''
           (run_ops [Wait ''repoA.fetching'', Start ''repoB.fetching'', Done ''repoA.fetching'']
              (repo_done_operation ''repoA.fetching'' init_world))) = Returns ()
   \<and> fst (repo_wait_operation ''repoA.fetching''
           (repo_start_operation ''repoA.fetching''
              (run_ops [Wait ''repoA.fetching'', Start ''repoB.fetching'', Done ''repoA.fetching'']
                 (repo_done_operation ''repoA.fetching'' init_world)))) = Blocks"
proof -
  have h: "Start ''repoA.fetching'' \<notin>
     set [Wait ''repoA.fetching'', Start ''repoB.fetching'', Done ''repoA.fetching'']"
    by simp
  show ?thesis
    using h done_signals_until_start [OF h, of init_world] by simp
qed

section \<open>Construction of a repository\<close>

text \<open>
  C6. With a null or empty index, or with the offline flag, the construction of a
  repository gives the object with the empty mapping as its catalog; the trace grows by
  the start and done messages of the gate \<open>nm @ ''.fetching''\<close> and by one call of the
  completion callback when there is one, and by no request to the transport; the gate is
  signaled afterwards, so a wait on it returns.
\<close>

theorem Repo_init_offline:
  assumes "index = None \<or> index = Some [] \<or> offline"
  shows "Repo_init e nm u index offline callback s =
           (\<lparr>name = nm, url = u, catalog = Some (Mapping [])\<rparr>,
            emit ([LogDebug (''Start operation '' @ nm @ ''.fetching''),
                   LogDebug (''Done operation '' @ nm @ ''.fetching'')]
                  @ (case callback of None \<Rightarrow> [] | Some cb \<Rightarrow> [Callback cb]))
              (s\<lparr>EVENTS := (EVENTS s)(nm @ ''.fetching'' \<mapsto> True)\<rparr>))
       \<and> fst (repo_wait_operation (nm @ ''.fetching'')
                (snd (Repo_init e nm u index offline callback s))) = Returns ()"
proof -
  have g: "get_catalog e \<lparr>name = nm, url = u, catalog = None\<rparr> index offline s =
             (Returns (Mapping []), repo_start_operation (nm @ ''.fetching'') s)"
    using assms by (auto simp: get_catalog_def Let_def split: option.split)
  have 1: "Repo_init e nm u index offline callback s =
           (\<lparr>name = nm, url = u, catalog = Some (Mapping [])\<rparr>,
            emit ([LogDebug (''Start operation '' @ nm @ ''.fetching''),
                   LogDebug (''Done operation '' @ nm @ ''.fetching'')]
                  @ (case callback of None \<Rightarrow> [] | Some cb \<Rightarrow> [Callback cb]))
              (s\<lparr>EVENTS := (EVENTS s)(nm @ ''.fetching'' \<mapsto> True)\<rparr>))"
    by (simp add: Repo_init_def RunAsync_def g set_catalog_def Let_def
        repo_done_operation_def repo_start_operation_def emit_def split: option.split)
  show ?thesis
    unfolding 1 by (simp add: wait_eq gate_signaled_def)
qed

theorem Repo_init_offline_witness:
  "Repo_init unreachable_env ''components'' ''http://example/''
       (Some ''http://example/index.yml'') True (Some (Handler 3)) init_world =
     (\<lparr>name = ''components'', url = ''http://example/'', catalog = Some (Mapping [])\<rparr>,
      init_world
        \<lparr>EVENTS := [''components.fetching'' \<mapsto> True],
         trace := [LogDebug ''Start operation components.fetching'',
                   LogDebug ''Done operation components.fetching'',
                   Callback (Handler 3)]\<rparr>)
   \<and> Repo_init unreachable_env ''components'' ''http://example/'' (Some []) False None init_world =
     (\<lparr>name = ''components'', url = ''http://example/'', catalog = Some (Mapping [])\<rparr>,
      init_world
        \<lparr>EVENTS := [''components.fetching'' \<mapsto> True],
         trace := [LogDebug ''Start operation components.fetching'',
                   LogDebug ''Done operation components.fetching'']\<rparr>)"
proof -
  have h1: "Some ''http://example/index.yml'' = None \<or> Some ''http://example/index.yml'' = Some []
            \<or> True"
    by simp
  have h2: "Some [] = None \<or> Some [] = Some ([] :: string) \<or> False"
    by simp
  show ?thesis
    using Repo_init_offline [OF h1, of unreachable_env "''components''" "''http://example/''"
        "Some (Handler 3)" init_world]
      Repo_init_offline [OF h2, of unreachable_env "''components''" "''http://example/''"
        None init_world]
    by (simp add: emit_def init_world_def)
qed

section \<open>Manifests\<close>

text \<open>
  C3 as stated fails in plain mode: with a transport that raises, the call in plain mode
  returns the empty mapping and does not raise.
\<close>

theorem get_manifest_plain_swallows:
  "http_get unreachable_env ''http://example/m.yml'' = None
   \<and> fst (get_manifest unreachable_env demo_repo ''http://example/m.yml'' True init_world) =
       Returns (Parsed (Mapping []))"
  by (simp add: get_manifest_def unreachable_env_def)

text \<open>
  C3, amended. For every URL for which the transport raises its error,
  \<^verbatim>\<open>get_manifest\<close> returns the empty mapping in plain mode as in the other mode, and
  adds to the trace the request and one error message; nothing else of the state changes
  and nothing is raised.
\<close>

theorem get_manifest_transport_error:
  assumes "http_get e u = None"
  shows "get_manifest e self u plain s =
           (Returns (Parsed (Mapping [])),
            emit [HttpGet u, LogError (''Cannot fetch '' @ name self @ '' manifest.'')] s)"
  using assms by (simp add: get_manifest_def emit_emit)

theorem get_manifest_transport_error_witness:
  "http_get unreachable_env ''http://example/m.yml'' = None
   \<and> get_manifest unreachable_env demo_repo ''http://example/m.yml'' True init_world =
       (Returns (Parsed (Mapping [])),
        init_world\<lparr>trace := [HttpGet ''http://example/m.yml'',
                              LogError ''Cannot fetch components manifest.'']\<rparr>)
   \<and> get_manifest unreachable_env demo_repo ''http://example/m.yml'' False init_world =
       (Returns (Parsed (Mapping [])),
        init_world\<lparr>trace := [HttpGet ''http://example/m.yml'',
                              LogError ''Cannot fetch components manifest.'']\<rparr>)"
proof -
  have h: "http_get unreachable_env ''http://example/m.yml'' = None"
    by (simp add: unreachable_env_def)
  show ?thesis
    using h get_manifest_transport_error [OF h, of demo_repo True init_world]
      get_manifest_transport_error [OF h, of demo_repo False init_world]
    by (simp add: demo_repo_def emit_def init_world_def)
qed

end
